theory Spec2Isabelle
  imports Main
begin

section \<open>Server-side user verification (lib/auth-server.ts)\<close>

text \<open>
  A shallow embedding of the server-side authentication utilities of InvenStock:
  \<^verbatim>\<open>getServerUser\<close>, \<^verbatim>\<open>requireServerAuth\<close>, \<^verbatim>\<open>getServerUserWithOrganization\<close>,
  \<^verbatim>\<open>hasPermission\<close>, \<^verbatim>\<open>requirePermission\<close> and \<^verbatim>\<open>validateOrganizationAccess\<close>.
  Every function of the source is asynchronous and may reject; here it is a function
  from the state of the world to a result (an exception on the left, a value on the
  right) and the world afterwards.
\<close>

subsection \<open>JavaScript values\<close>

text \<open>An exception: \<^verbatim>\<open>new Error(message)\<close>, or whatever a dependency throws.\<close>

datatype js_error = JsError string

text \<open>
  A value of type \<^verbatim>\<open>string | undefined | null\<close> is a \<open>string option\<close>. It is falsy
  when it is absent or the empty string; \<^verbatim>\<open>a || b\<close> is \<open>a\<close> when \<open>a\<close> is truthy and
  \<open>b\<close> otherwise.
\<close>

definition truthy :: "string option \<Rightarrow> bool" where
  "truthy v = (case v of None \<Rightarrow> False | Some s \<Rightarrow> s \<noteq> [])"

definition js_or :: "string option \<Rightarrow> string option \<Rightarrow> string option" where
  "js_or a b = (if truthy a then a else b)"

text \<open>
  \<^verbatim>\<open>s.split(sep)\<close> for a separator of one character: the pieces between the
  separators, at least one piece.
\<close>

fun split_str :: "char \<Rightarrow> string \<Rightarrow> string list" where
  "split_str sep [] = [[]]"
| "split_str sep (c # cs) =
     (if c = sep then [] # split_str sep cs
      else (case split_str sep cs of
              [] \<Rightarrow> [[c]]
            | w # ws \<Rightarrow> (c # w) # ws))"

text \<open>
  The destructuring \<^verbatim>\<open>const [category] = pieces\<close>: the first piece, \<^verbatim>\<open>undefined\<close>
  (printed as such by a template string) when there is none.
\<close>

definition first_piece :: "string list \<Rightarrow> string" where
  "first_piece pieces = (case pieces of [] \<Rightarrow> ''undefined'' | p # _ \<Rightarrow> p)"

subsection \<open>Rows of the relational store\<close>

datatype UserStatus = PENDING | ACTIVE | SUSPENDED | INACTIVE

datatype OrganizationStatus = ORG_ACTIVE | ORG_SUSPENDED | ORG_TRIAL

text \<open>The columns of a user that the \<^verbatim>\<open>select\<close> of \<^verbatim>\<open>getServerUser\<close> projects.\<close>

record user_row =
  user_id :: string
  user_email :: "string option"
  user_username :: "string option"
  user_firstName :: string
  user_lastName :: string
  user_status :: UserStatus
  user_isActive :: bool

text \<open>The columns of an organization that \<^verbatim>\<open>getServerUserWithOrganization\<close> selects.\<close>

record organization_row =
  org_id :: string
  org_name :: string
  org_slug :: string
  org_status :: OrganizationStatus
  org_timezone :: string
  org_currency :: string

text \<open>A membership, with the organization that \<^verbatim>\<open>include\<close> attaches to it.\<close>

record organizationUser_row =
  ou_userId :: string
  ou_organizationId :: string
  ou_isActive :: bool
  ou_organization :: organization_row

record permission_row =
  perm_name :: string
  perm_isWildcard :: bool

record rolePermission_row =
  rp_allowed :: bool
  rp_permission :: permission_row

record role_row =
  role_id :: string
  role_organizationId :: string
  role_name :: string
  role_permissions :: "rolePermission_row list"

text \<open>A role assignment, with the role and its permission grants attached.\<close>

record organizationUserRole_row =
  our_organizationId :: string
  our_userId :: string
  our_isActive :: bool
  our_role :: role_row

text \<open>
  The store as the Prisma client sees it: the rows of the three models that are
  queried, and for each model the error with which a query on it rejects while the
  store is unavailable.
\<close>

datatype model_name = UserModel | OrganizationUserModel | OrganizationUserRoleModel

record store =
  users :: "user_row list"
  organizationUsers :: "organizationUser_row list"
  organizationUserRoles :: "organizationUserRole_row list"
  outage :: "model_name \<Rightarrow> js_error option"

subsection \<open>Session claims and the resolved user\<close>

text \<open>\<^verbatim>\<open>JWTPayload\<close> of types/auth.d.ts.\<close>

record JWTPayload =
  payload_userId :: "string option"
  payload_username :: string
  payload_email :: "string option"
  payload_firstName :: string
  payload_lastName :: string
  payload_organizationId :: "string option"
  payload_roleId :: "string option"
  payload_permissions :: "string list option"
  payload_iat :: "nat option"
  payload_exp :: "nat option"

text \<open>
  \<^verbatim>\<open>JWTUser\<close> is declared in lib/auth.ts, which is not among the sources. Its fields are
  those the code reads and writes: the five that \<^verbatim>\<open>getServerUser\<close> fills, and the
  optional \<^verbatim>\<open>organizationId\<close> that \<^verbatim>\<open>getServerUserWithOrganization\<close> reads.
\<close>

record JWTUser =
  userId :: string
  email :: "string option"
  username :: "string option"
  firstName :: string
  lastName :: string
  organizationId :: "string option"

text \<open>The result of \<^verbatim>\<open>getServerUserWithOrganization\<close> when it is not \<^verbatim>\<open>null\<close>.\<close>

record org_context =
  user :: JWTUser
  organization :: "organization_row option"
  role :: "role_row option"

subsection \<open>The world and its effects\<close>

text \<open>
  What a call depends on and what it can change: what \<^verbatim>\<open>cookies()\<close> of next/headers
  yields for the request (the cookies by name, or an exception), the token codec
  \<^verbatim>\<open>verifyToken\<close> of lib/auth.ts (not among the sources: any function from a token to
  decoded claims, \<^verbatim>\<open>null\<close> or an exception; time is not modelled, so the codec answers
  the same token the same way), the store, and the lines written with
  \<^verbatim>\<open>console.error\<close>.
\<close>

record world =
  cookie_jar :: "js_error + (string \<times> string) list"
  verifyToken :: "string \<Rightarrow> js_error + JWTPayload option"
  prisma :: store
  console :: "(string \<times> js_error) list"

type_synonym 'a io = "world \<Rightarrow> (js_error + 'a) \<times> world"

definition io_return :: "'a \<Rightarrow> 'a io" where
  "io_return x w = (Inr x, w)"

definition io_throw :: "js_error \<Rightarrow> 'a io" where
  "io_throw e w = (Inl e, w)"

text \<open>\<^verbatim>\<open>const x = await m; ...\<close>: an exception of \<open>m\<close> skips the rest.\<close>

definition io_bind :: "'a io \<Rightarrow> ('a \<Rightarrow> 'b io) \<Rightarrow> 'b io" where
  "io_bind m f w = (case m w of (Inl e, w') \<Rightarrow> (Inl e, w') | (Inr x, w') \<Rightarrow> f x w')"

text \<open>\<^verbatim>\<open>try { m } catch (error) { h }\<close>.\<close>

definition io_try :: "'a io \<Rightarrow> (js_error \<Rightarrow> 'a io) \<Rightarrow> 'a io" where
  "io_try m h w = (case m w of (Inl e, w') \<Rightarrow> h e w' | (Inr x, w') \<Rightarrow> (Inr x, w'))"

definition console_error :: "string \<Rightarrow> js_error \<Rightarrow> unit io" where
  "console_error msg e w = (Inr (), w\<lparr>console := console w @ [(msg, e)]\<rparr>)"

definition cookies :: "(string \<times> string) list io" where
  "cookies w = (cookie_jar w, w)"

text \<open>\<^verbatim>\<open>cookieStore.get(name)?.value\<close>.\<close>

definition cookie_value :: "(string \<times> string) list \<Rightarrow> string \<Rightarrow> string option" where
  "cookie_value cookieStore name = map_of cookieStore name"

definition call_verifyToken :: "string \<Rightarrow> JWTPayload option io" where
  "call_verifyToken token w = (verifyToken w token, w)"

text \<open>
  The queries. Each reads the rows of its model and leaves the world as it was; it
  rejects while its model is unavailable. A unique index leaves at most one row for a
  key, so \<^verbatim>\<open>findUnique\<close> is the first row that meets the conditions, as
  \<^verbatim>\<open>findFirst\<close> is.
  \<^item> \<^verbatim>\<open>prisma.user.findUnique({ where: { id } })\<close>
  \<^item> \<^verbatim>\<open>prisma.organizationUser.findFirst({ where: { userId, organizationId, isActive: true } })\<close>
  \<^item> \<^verbatim>\<open>prisma.organizationUserRole.findUnique({ where: { organizationId_userId:
     { organizationId, userId }, isActive: true } })\<close>
\<close>

definition user_findUnique :: "string \<Rightarrow> user_row option io" where
  "user_findUnique uid w =
     (case outage (prisma w) UserModel of
        Some e \<Rightarrow> (Inl e, w)
      | None \<Rightarrow> (Inr (find (\<lambda>r. user_id r = uid) (users (prisma w))), w))"

definition organizationUser_findFirst :: "string \<Rightarrow> string \<Rightarrow> organizationUser_row option io" where
  "organizationUser_findFirst uid oid w =
     (case outage (prisma w) OrganizationUserModel of
        Some e \<Rightarrow> (Inl e, w)
      | None \<Rightarrow>
          (Inr (find (\<lambda>r. ou_userId r = uid \<and> ou_organizationId r = oid \<and> ou_isActive r)
                  (organizationUsers (prisma w))), w))"

definition organizationUserRole_findUnique ::
    "string \<Rightarrow> string \<Rightarrow> organizationUserRole_row option io" where
  "organizationUserRole_findUnique oid uid w =
     (case outage (prisma w) OrganizationUserRoleModel of
        Some e \<Rightarrow> (Inl e, w)
      | None \<Rightarrow>
          (Inr (find (\<lambda>r. our_organizationId r = oid \<and> our_userId r = uid \<and> our_isActive r)
                  (organizationUserRoles (prisma w))), w))"

subsection \<open>getServerUser\<close>

text \<open>The body of the \<^verbatim>\<open>try\<close> block of \<^verbatim>\<open>getServerUser\<close>.\<close>

definition getServerUser_try :: "JWTUser option io" where
  "getServerUser_try =
     io_bind cookies (\<lambda>cookieStore.
       case cookie_value cookieStore ''auth-token'' of
         None \<Rightarrow> io_return None
       | Some token \<Rightarrow>
           if token = [] then io_return None
           else io_bind (call_verifyToken token) (\<lambda>payload.
             case payload of
               None \<Rightarrow> io_return None
             | Some p \<Rightarrow>
                 (case payload_userId p of
                    None \<Rightarrow> io_return None
                  | Some uid \<Rightarrow>
                      if uid = [] then io_return None
                      else io_bind (user_findUnique uid) (\<lambda>found.
                        case found of
                          None \<Rightarrow> io_return None
                        | Some u \<Rightarrow>
                            if \<not> user_isActive u \<or> user_status u \<noteq> ACTIVE
                            then io_return None
                            else io_return (Some
                              \<lparr>userId = user_id u,
                               email = user_email u,
                               username = js_or (user_username u) None,
                               firstName = user_firstName u,
                               lastName = user_lastName u,
                               organizationId = None\<rparr>)))))"

definition getServerUser :: "JWTUser option io" where
  "getServerUser =
     io_try getServerUser_try (\<lambda>error.
       io_bind (console_error ''Server user verification failed:'' error) (\<lambda>_.
         io_return None))"

subsection \<open>requireServerAuth\<close>

definition requireServerAuth :: "JWTUser io" where
  "requireServerAuth =
     io_bind getServerUser (\<lambda>resolved.
       case resolved of
         None \<Rightarrow> io_throw (JsError ''Authentication required'')
       | Some u \<Rightarrow> io_return u)"

subsection \<open>getServerUserWithOrganization\<close>

text \<open>
  The body of the \<^verbatim>\<open>try\<close> block: the membership of the user in the target
  organization, then the role assigned to the user there.
\<close>

definition getServerUserWithOrganization_try :: "JWTUser \<Rightarrow> string \<Rightarrow> org_context option io" where
  "getServerUserWithOrganization_try u targetOrgId =
     io_bind (organizationUser_findFirst (userId u) targetOrgId) (\<lambda>orgUser.
       case orgUser of
         None \<Rightarrow> io_return None
       | Some ou \<Rightarrow>
           io_bind (organizationUserRole_findUnique targetOrgId (userId u)) (\<lambda>userRole.
             io_return (Some
               \<lparr>user = u,
                organization = Some (ou_organization ou),
                role = map_option our_role userRole\<rparr>)))"

definition getServerUserWithOrganization :: "string option \<Rightarrow> org_context option io" where
  "getServerUserWithOrganization orgIdArg =
     io_bind getServerUser (\<lambda>resolved.
       case resolved of
         None \<Rightarrow> io_return None
       | Some u \<Rightarrow>
           (case js_or orgIdArg (organizationId u) of
              None \<Rightarrow> io_return (Some \<lparr>user = u, organization = None, role = None\<rparr>)
            | Some targetOrgId \<Rightarrow>
                if targetOrgId = []
                then io_return (Some \<lparr>user = u, organization = None, role = None\<rparr>)
                else io_try (getServerUserWithOrganization_try u targetOrgId) (\<lambda>error.
                  io_bind (console_error ''Failed to get user organization context:'' error) (\<lambda>_.
                    io_return (Some \<lparr>user = u, organization = None, role = None\<rparr>)))))"

subsection \<open>hasPermission and requirePermission\<close>

text \<open>
  \<^verbatim>\<open>role.permissions.some(rp => rp.permission.name === name && rp.allowed)\<close>
\<close>

definition some_allowed :: "role_row \<Rightarrow> string \<Rightarrow> bool" where
  "some_allowed r name =
     list_ex (\<lambda>rp. perm_name (rp_permission rp) = name \<and> rp_allowed rp) (role_permissions r)"

definition hasPermission :: "string \<Rightarrow> string option \<Rightarrow> bool io" where
  "hasPermission permission orgIdArg =
     io_bind (getServerUserWithOrganization orgIdArg) (\<lambda>ctx.
       case ctx of
         None \<Rightarrow> io_return False
       | Some c \<Rightarrow>
           (case role c of
              None \<Rightarrow> io_return False
            | Some r \<Rightarrow>
                if some_allowed r permission then io_return True
                else
                  let category = first_piece (split_str CHR ''.'' permission);
                      wildcardPermission = category @ ''.*''
                  in if some_allowed r wildcardPermission then io_return True
                     else io_return (some_allowed r ''*'')))"

definition requirePermission :: "string \<Rightarrow> string option \<Rightarrow> unit io" where
  "requirePermission permission orgIdArg =
     io_bind (hasPermission permission orgIdArg) (\<lambda>hasAccess.
       if \<not> hasAccess then io_throw (JsError (''Permission denied: '' @ permission))
       else io_return ())"

subsection \<open>validateOrganizationAccess\<close>

definition validateOrganizationAccess :: "string \<Rightarrow> string \<Rightarrow> bool io" where
  "validateOrganizationAccess uid oid =
     io_try
       (io_bind (organizationUser_findFirst uid oid) (\<lambda>orgUser.
          io_return (orgUser \<noteq> None)))
       (\<lambda>error.
          io_bind (console_error ''Failed to validate organization access:'' error) (\<lambda>_.
            io_return False))"

subsection \<open>Example worlds\<close>

text \<open>
  Alice is an active user and an active member of organization A, where she holds the
  role Clerk: every permission of the category products is granted, and the grant of
  inventory.create is switched off. Her token embeds organization A.
\<close>

definition alice_row :: user_row where
  "alice_row = \<lparr>user_id = ''u1'', user_email = Some ''alice@example.com'',
     user_username = Some ''alice'', user_firstName = ''Alice'', user_lastName = ''Liddell'',
     user_status = ACTIVE, user_isActive = True\<rparr>"

definition alice :: JWTUser where
  "alice = \<lparr>userId = ''u1'', email = Some ''alice@example.com'', username = Some ''alice'',
     firstName = ''Alice'', lastName = ''Liddell'', organizationId = None\<rparr>"

definition orgA :: organization_row where
  "orgA = \<lparr>org_id = ''orgA'', org_name = ''Pharmacy A'', org_slug = ''pharmacy-a'',
     org_status = ORG_ACTIVE, org_timezone = ''Asia/Bangkok'', org_currency = ''THB''\<rparr>"

definition grant :: "string \<Rightarrow> bool \<Rightarrow> rolePermission_row" where
  "grant name ok =
     \<lparr>rp_allowed = ok, rp_permission = \<lparr>perm_name = name, perm_isWildcard = False\<rparr>\<rparr>"

definition clerk_role :: role_row where
  "clerk_role = \<lparr>role_id = ''r1'', role_organizationId = ''orgA'', role_name = ''Clerk'',
     role_permissions = [grant ''products.*'' True, grant ''inventory.create'' False]\<rparr>"

definition alice_in_orgA :: organizationUser_row where
  "alice_in_orgA = \<lparr>ou_userId = ''u1'', ou_organizationId = ''orgA'', ou_isActive = True,
     ou_organization = orgA\<rparr>"

definition demo_payload :: JWTPayload where
  "demo_payload = \<lparr>payload_userId = Some ''u1'', payload_username = ''alice'',
     payload_email = Some ''alice@example.com'', payload_firstName = ''Alice'',
     payload_lastName = ''Liddell'', payload_organizationId = Some ''orgA'',
     payload_roleId = None, payload_permissions = None, payload_iat = None,
     payload_exp = None\<rparr>"

definition demo_codec :: "string \<Rightarrow> js_error + JWTPayload option" where
  "demo_codec token = (if token = ''tok'' then Inr (Some demo_payload) else Inr None)"

definition demo_store :: store where
  "demo_store = \<lparr>users = [alice_row],
     organizationUsers = [alice_in_orgA],
     organizationUserRoles = [\<lparr>our_organizationId = ''orgA'', our_userId = ''u1'',
                               our_isActive = True, our_role = clerk_role\<rparr>],
     outage = (\<lambda>_. None)\<rparr>"

definition demo_world :: world where
  "demo_world = \<lparr>cookie_jar = Inr [(''auth-token'', ''tok'')], verifyToken = demo_codec,
     prisma = demo_store, console = []\<rparr>"

text \<open>The request carries no cookie.\<close>

definition anonymous_world :: world where
  "anonymous_world = demo_world\<lparr>cookie_jar := Inr []\<rparr>"

text \<open>Queries on one model reject: users, memberships, role assignments.\<close>

definition user_down_world :: world where
  "user_down_world = demo_world\<lparr>prisma := demo_store\<lparr>outage :=
     (\<lambda>m. if m = UserModel then Some (JsError ''connection refused'') else None)\<rparr>\<rparr>"

definition down_world :: world where
  "down_world = demo_world\<lparr>prisma := demo_store\<lparr>outage :=
     (\<lambda>m. if m = OrganizationUserModel then Some (JsError ''connection refused'') else None)\<rparr>\<rparr>"

definition role_down_world :: world where
  "role_down_world = demo_world\<lparr>prisma := demo_store\<lparr>outage :=
     (\<lambda>m. if m = OrganizationUserRoleModel then Some (JsError ''connection refused'')
          else None)\<rparr>\<rparr>"

text \<open>Alice's membership in organization A is switched off.\<close>

definition stale_world :: world where
  "stale_world = demo_world\<lparr>prisma := demo_store\<lparr>organizationUsers :=
     [alice_in_orgA\<lparr>ou_isActive := False\<rparr>]\<rparr>\<rparr>"

text \<open>Alice is a member of organization A with no role assigned.\<close>

definition norole_world :: world where
  "norole_world = demo_world\<lparr>prisma := demo_store\<lparr>organizationUserRoles := []\<rparr>\<rparr>"

text \<open>Alice's account is suspended.\<close>

definition suspended_world :: world where
  "suspended_world = demo_world\<lparr>prisma := demo_store\<lparr>users :=
     [alice_row\<lparr>user_status := SUSPENDED\<rparr>]\<rparr>\<rparr>"

section \<open>Properties\<close>

lemmas io_defs = io_bind_def io_try_def io_return_def io_throw_def console_error_def
  cookies_def call_verifyToken_def user_findUnique_def organizationUser_findFirst_def
  organizationUserRole_findUnique_def

lemmas eval_defs = getServerUser_def getServerUser_try_def getServerUserWithOrganization_def
  getServerUserWithOrganization_try_def hasPermission_def requirePermission_def
  requireServerAuth_def validateOrganizationAccess_def some_allowed_def io_defs
  cookie_value_def js_or_def truthy_def first_piece_def

lemmas demo_defs = demo_world_def demo_store_def demo_codec_def demo_payload_def alice_row_def
  alice_def orgA_def clerk_role_def grant_def alice_in_orgA_def anonymous_world_def
  user_down_world_def down_world_def role_down_world_def stale_world_def norole_world_def
  suspended_world_def

subsection \<open>The pieces of a permission name\<close>

lemma split_str_nonempty: "split_str sep s \<noteq> []"
  by (induction s) (auto split: list.splits)

text \<open>The category of a permission name is what stands before its first dot.\<close>

lemma first_piece_split_str: "first_piece (split_str sep s) = takeWhile (\<lambda>c. c \<noteq> sep) s"
  using split_str_nonempty [of sep]
  by (induction s) (auto simp: first_piece_def split: list.splits)

lemma some_allowed_iff:
  "some_allowed r n \<longleftrightarrow>
     (\<exists>g\<in>set (role_permissions r). rp_allowed g \<and> perm_name (rp_permission g) = n)"
  by (auto simp: some_allowed_def list_ex_iff)

subsection \<open>What getServerUser does to the world\<close>

lemma getServerUser_try_world: "snd (getServerUser_try w) = w"
  by (simp add: getServerUser_try_def io_defs split: sum.splits option.splits prod.splits)

lemma getServerUser_try_console:
  "fst (getServerUser_try (w\<lparr>console := c\<rparr>)) = fst (getServerUser_try w)"
  by (simp add: getServerUser_try_def io_defs split: sum.splits option.splits prod.splits)

lemma getServerUser_ok:
  "fst (getServerUser_try w) = Inr r \<Longrightarrow> getServerUser w = (Inr r, w)"
  using getServerUser_try_world [of w]
  by (cases "getServerUser_try w") (simp add: getServerUser_def io_try_def)

lemma getServerUser_caught:
  "fst (getServerUser_try w) = Inl e \<Longrightarrow>
   getServerUser w =
     (Inr None, w\<lparr>console := console w @ [(''Server user verification failed:'', e)]\<rparr>)"
  using getServerUser_try_world [of w]
  by (cases "getServerUser_try w")
    (simp add: getServerUser_def io_try_def io_bind_def console_error_def io_return_def)

lemma getServerUser_fst:
  "fst (getServerUser w) =
     (case fst (getServerUser_try w) of Inl e \<Rightarrow> Inr None | Inr r \<Rightarrow> Inr r)"
  by (cases "fst (getServerUser_try w)") (simp_all add: getServerUser_ok getServerUser_caught)

lemma getServerUser_total: "\<exists>r. fst (getServerUser w) = Inr r"
  by (simp add: getServerUser_fst split: sum.splits)

lemma getServerUser_resolved:
  assumes "fst (getServerUser w) = Inr (Some u)"
  shows "getServerUser w = (Inr (Some u), w)"
  using assms
  by (cases "fst (getServerUser_try w)") (simp_all add: getServerUser_ok getServerUser_caught)

text \<open>The object that getServerUser builds has no organizationId.\<close>

lemma getServerUser_try_no_org:
  "fst (getServerUser_try w) = Inr (Some u) \<Longrightarrow> organizationId u = None"
  by (auto simp add: getServerUser_try_def io_defs
      split: sum.splits option.splits prod.splits if_splits)

lemma getServerUser_no_org:
  assumes "fst (getServerUser w) = Inr (Some u)"
  shows "organizationId u = None"
proof -
  from assms have "fst (getServerUser_try w) = Inr (Some u)"
    by (simp add: getServerUser_fst split: sum.splits)
  then show ?thesis by (rule getServerUser_try_no_org)
qed

subsection \<open>The context of a resolved user\<close>

lemma getServerUser_unresolved:
  assumes "fst (getServerUser w) = Inr None"
  shows "fst (getServerUserWithOrganization orgIdArg w) = Inr None"
  using assms
  by (cases "getServerUser w")
    (simp add: getServerUserWithOrganization_def io_bind_def io_return_def)

lemma context_of_resolved:
  assumes "fst (getServerUser w) = Inr (Some u)"
  shows "getServerUserWithOrganization orgIdArg w =
     (case orgIdArg of
        None \<Rightarrow> (Inr (Some \<lparr>user = u, organization = None, role = None\<rparr>), w)
      | Some t \<Rightarrow>
          if t = [] then (Inr (Some \<lparr>user = u, organization = None, role = None\<rparr>), w)
          else io_try (getServerUserWithOrganization_try u t) (\<lambda>error.
                 io_bind (console_error ''Failed to get user organization context:'' error)
                   (\<lambda>_. io_return (Some \<lparr>user = u, organization = None, role = None\<rparr>))) w)"
  using getServerUser_resolved [OF assms] getServerUser_no_org [OF assms]
  by (simp add: getServerUserWithOrganization_def io_bind_def io_return_def js_or_def
      truthy_def split: option.splits)

lemma getServerUserWithOrganization_total:
  "\<exists>r. fst (getServerUserWithOrganization orgIdArg w) = Inr r"
proof -
  obtain r where r: "fst (getServerUser w) = Inr r"
    using getServerUser_total by blast
  show ?thesis
  proof (cases r)
    case None
    with r show ?thesis by (simp add: getServerUser_unresolved)
  next
    case (Some u)
    with r have "fst (getServerUser w) = Inr (Some u)" by simp
    then show ?thesis
      by (simp add: context_of_resolved getServerUserWithOrganization_try_def io_defs
          split: option.splits sum.splits prod.splits)
  qed
qed

lemma hasPermission_total: "\<exists>b. fst (hasPermission p orgIdArg w) = Inr b"
proof -
  obtain x w' where "getServerUserWithOrganization orgIdArg w = (Inr x, w')"
    using getServerUserWithOrganization_total [of orgIdArg w]
    by (cases "getServerUserWithOrganization orgIdArg w") auto
  then show ?thesis
    by (auto simp add: hasPermission_def io_bind_def io_return_def Let_def
        split: option.splits)
qed

lemma validateOrganizationAccess_total:
  "\<exists>b. fst (validateOrganizationAccess uid oid w) = Inr b"
  by (auto simp add: validateOrganizationAccess_def io_defs split: option.splits)

text \<open>A caller with no session is refused by requirePermission like any other.\<close>

lemma requirePermission_unauthenticated:
  assumes "fst (getServerUser w) = Inr None"
  shows "fst (requirePermission p orgIdArg w) = Inl (JsError (''Permission denied: '' @ p))"
proof -
  have "fst (getServerUserWithOrganization orgIdArg w) = Inr None"
    using assms by (rule getServerUser_unresolved)
  then show ?thesis
    by (cases "getServerUserWithOrganization orgIdArg w")
      (simp add: requirePermission_def hasPermission_def io_bind_def io_return_def io_throw_def)
qed

subsection \<open>The example worlds\<close>

lemma demo_resolved: "fst (getServerUser demo_world) = Inr (Some alice)"
  by (simp add: eval_defs demo_defs)

lemma down_resolved: "fst (getServerUser down_world) = Inr (Some alice)"
  by (simp add: eval_defs demo_defs)

lemma role_down_resolved: "fst (getServerUser role_down_world) = Inr (Some alice)"
  by (simp add: eval_defs demo_defs)

lemma stale_resolved: "fst (getServerUser stale_world) = Inr (Some alice)"
  by (simp add: eval_defs demo_defs)

lemma norole_resolved: "fst (getServerUser norole_world) = Inr (Some alice)"
  by (simp add: eval_defs demo_defs)

lemma anonymous_unresolved: "fst (getServerUser anonymous_world) = Inr None"
  by (simp add: eval_defs demo_defs)

section \<open>The claims\<close>

subsection \<open>C1: the permission decision\<close>

text \<open>
  Claim C1. \<^verbatim>\<open>hasPermission(p, orgId)\<close> returns true exactly when a context is resolved,
  its role is not null, and some grant of that role has \<^verbatim>\<open>allowed = true\<close> and a name
  that is \<open>p\<close> itself, the category of \<open>p\<close> (what stands before its first dot) followed
  by \<^verbatim>\<open>.*\<close>, or \<^verbatim>\<open>*\<close>. With no context or a null role the answer is false.
\<close>

theorem hasPermission_iff_granted:
  "fst (hasPermission p orgIdArg w) =
     Inr (case fst (getServerUserWithOrganization orgIdArg w) of
            Inl e \<Rightarrow> False
          | Inr None \<Rightarrow> False
          | Inr (Some c) \<Rightarrow>
              (case role c of
                 None \<Rightarrow> False
               | Some r \<Rightarrow>
                   (\<exists>g\<in>set (role_permissions r). rp_allowed g \<and>
                      (perm_name (rp_permission g) = p \<or>
                       perm_name (rp_permission g) =
                         takeWhile (\<lambda>ch. ch \<noteq> CHR ''.'') p @ ''.*'' \<or>
                       perm_name (rp_permission g) = ''*''))))"
proof -
  obtain x w' where run: "getServerUserWithOrganization orgIdArg w = (Inr x, w')"
    using getServerUserWithOrganization_total [of orgIdArg w]
    by (cases "getServerUserWithOrganization orgIdArg w") auto
  show ?thesis
  proof (cases x)
    case None
    with run show ?thesis by (simp add: hasPermission_def io_bind_def io_return_def)
  next
    case (Some c)
    show ?thesis
    proof (cases "role c")
      case None
      with run Some show ?thesis by (simp add: hasPermission_def io_bind_def io_return_def)
    next
      case (Some r)
      with run \<open>x = Some c\<close> show ?thesis
        by (simp add: hasPermission_def io_bind_def io_return_def Let_def
            first_piece_split_str some_allowed_iff) blast
    qed
  qed
qed

theorem hasPermission_iff_granted_witness:
  "fst (hasPermission ''products.create'' (Some ''orgA'') demo_world) = Inr True \<and>
   fst (hasPermission ''inventory.create'' (Some ''orgA'') demo_world) = Inr False \<and>
   fst (hasPermission ''products.create'' (Some ''orgA'') norole_world) = Inr False"
  using hasPermission_iff_granted [of "''products.create''" "Some ''orgA''" demo_world]
    hasPermission_iff_granted [of "''inventory.create''" "Some ''orgA''" demo_world]
    hasPermission_iff_granted [of "''products.create''" "Some ''orgA''" norole_world]
  by (simp add: eval_defs demo_defs)

subsection \<open>C2: a store query that fails\<close>

text \<open>
  Claim C2, as amended. The code has no StoreError outcome. When a store query raises,
  \<^verbatim>\<open>getServerUserWithOrganization\<close> and \<^verbatim>\<open>validateOrganizationAccess\<close> catch the
  error, write it to the console and return normally: \<^verbatim>\<open>validateOrganizationAccess\<close>
  returns false, and \<^verbatim>\<open>getServerUserWithOrganization\<close>, for a resolved user and a
  non-empty target whose membership query or role query raises, returns the user with
  organization and role null.
\<close>

theorem store_failure_caught:
  "(\<exists>r. fst (getServerUserWithOrganization orgIdArg w) = Inr r) \<and>
   (\<exists>b. fst (validateOrganizationAccess uid oid w) = Inr b) \<and>
   (\<forall>e. outage (prisma w) OrganizationUserModel = Some e \<longrightarrow>
      validateOrganizationAccess uid oid w =
        (Inr False,
         w\<lparr>console := console w @ [(''Failed to validate organization access:'', e)]\<rparr>)) \<and>
   (\<forall>e u t. fst (getServerUser w) = Inr (Some u) \<and> t \<noteq> [] \<and>
        outage (prisma w) OrganizationUserModel = Some e \<longrightarrow>
      getServerUserWithOrganization (Some t) w =
        (Inr (Some \<lparr>user = u, organization = None, role = None\<rparr>),
         w\<lparr>console := console w @ [(''Failed to get user organization context:'', e)]\<rparr>)) \<and>
   (\<forall>e u t m. fst (getServerUser w) = Inr (Some u) \<and> t \<noteq> [] \<and>
        outage (prisma w) OrganizationUserModel = None \<and>
        find (\<lambda>r. ou_userId r = userId u \<and> ou_organizationId r = t \<and> ou_isActive r)
          (organizationUsers (prisma w)) = Some m \<and>
        outage (prisma w) OrganizationUserRoleModel = Some e \<longrightarrow>
      getServerUserWithOrganization (Some t) w =
        (Inr (Some \<lparr>user = u, organization = None, role = None\<rparr>),
         w\<lparr>console := console w @ [(''Failed to get user organization context:'', e)]\<rparr>))"
proof -
  have a: "\<exists>r. fst (getServerUserWithOrganization orgIdArg w) = Inr r"
    by (rule getServerUserWithOrganization_total)
  have b: "\<exists>b. fst (validateOrganizationAccess uid oid w) = Inr b"
    by (rule validateOrganizationAccess_total)
  have c: "\<forall>e. outage (prisma w) OrganizationUserModel = Some e \<longrightarrow>
      validateOrganizationAccess uid oid w =
        (Inr False,
         w\<lparr>console := console w @ [(''Failed to validate organization access:'', e)]\<rparr>)"
    by (simp add: validateOrganizationAccess_def io_defs)
  have d: "\<forall>e u t. fst (getServerUser w) = Inr (Some u) \<and> t \<noteq> [] \<and>
        outage (prisma w) OrganizationUserModel = Some e \<longrightarrow>
      getServerUserWithOrganization (Some t) w =
        (Inr (Some \<lparr>user = u, organization = None, role = None\<rparr>),
         w\<lparr>console := console w @ [(''Failed to get user organization context:'', e)]\<rparr>)"
    by (simp add: context_of_resolved getServerUserWithOrganization_try_def io_defs)
  have e: "\<forall>e u t m. fst (getServerUser w) = Inr (Some u) \<and> t \<noteq> [] \<and>
        outage (prisma w) OrganizationUserModel = None \<and>
        find (\<lambda>r. ou_userId r = userId u \<and> ou_organizationId r = t \<and> ou_isActive r)
          (organizationUsers (prisma w)) = Some m \<and>
        outage (prisma w) OrganizationUserRoleModel = Some e \<longrightarrow>
      getServerUserWithOrganization (Some t) w =
        (Inr (Some \<lparr>user = u, organization = None, role = None\<rparr>),
         w\<lparr>console := console w @ [(''Failed to get user organization context:'', e)]\<rparr>)"
    by (simp add: context_of_resolved getServerUserWithOrganization_try_def io_defs)
  from a b c d e show ?thesis by blast
qed

theorem store_failure_caught_witness:
  "validateOrganizationAccess ''u1'' ''orgA'' down_world =
     (Inr False, down_world\<lparr>console :=
        [(''Failed to validate organization access:'', JsError ''connection refused'')]\<rparr>) \<and>
   getServerUserWithOrganization (Some ''orgA'') down_world =
     (Inr (Some \<lparr>user = alice, organization = None, role = None\<rparr>), down_world\<lparr>console :=
        [(''Failed to get user organization context:'', JsError ''connection refused'')]\<rparr>) \<and>
   getServerUserWithOrganization (Some ''orgA'') role_down_world =
     (Inr (Some \<lparr>user = alice, organization = None, role = None\<rparr>),
      role_down_world\<lparr>console :=
        [(''Failed to get user organization context:'', JsError ''connection refused'')]\<rparr>)"
proof -
  have h1: "outage (prisma down_world) OrganizationUserModel =
      Some (JsError ''connection refused'')"
    by (simp add: demo_defs)
  have h2: "outage (prisma role_down_world) OrganizationUserModel = None"
    and h3: "outage (prisma role_down_world) OrganizationUserRoleModel =
      Some (JsError ''connection refused'')"
    and h4: "find (\<lambda>r. ou_userId r = userId alice \<and> ou_organizationId r = ''orgA'' \<and>
                 ou_isActive r)
          (organizationUsers (prisma role_down_world)) = Some alice_in_orgA"
    by (simp_all add: demo_defs)
  have c0: "console down_world = []" "console role_down_world = []"
    by (simp_all add: demo_defs)
  have ne: "''orgA'' \<noteq> []" by simp
  from store_failure_caught [of "Some ''orgA''" down_world "''u1''" "''orgA''"]
    h1 down_resolved ne c0
  have p1: "validateOrganizationAccess ''u1'' ''orgA'' down_world =
     (Inr False, down_world\<lparr>console :=
        [(''Failed to validate organization access:'', JsError ''connection refused'')]\<rparr>)"
    and p2: "getServerUserWithOrganization (Some ''orgA'') down_world =
     (Inr (Some \<lparr>user = alice, organization = None, role = None\<rparr>), down_world\<lparr>console :=
        [(''Failed to get user organization context:'', JsError ''connection refused'')]\<rparr>)"
    by auto
  from store_failure_caught [of "Some ''orgA''" role_down_world "''u1''" "''orgA''"]
    h2 h3 h4 role_down_resolved ne c0
  have p3: "getServerUserWithOrganization (Some ''orgA'') role_down_world =
     (Inr (Some \<lparr>user = alice, organization = None, role = None\<rparr>),
      role_down_world\<lparr>console :=
        [(''Failed to get user organization context:'', JsError ''connection refused'')]\<rparr>)"
    by auto
  from p1 p2 p3 show ?thesis by simp
qed

text \<open>
  The claim as it stands fails. While the membership model is unavailable,
  \<^verbatim>\<open>validateOrganizationAccess\<close> answers false, as it does for a membership that is
  switched off; \<^verbatim>\<open>getServerUserWithOrganization\<close> answers with the value it gives a
  caller who named no organization; and a permission that is granted while the store
  answers is denied.
\<close>

theorem store_failure_reported_counterexample:
  "outage (prisma down_world) OrganizationUserModel = Some (JsError ''connection refused'') \<and>
   fst (validateOrganizationAccess ''u1'' ''orgA'' down_world) = Inr False \<and>
   fst (validateOrganizationAccess ''u1'' ''orgA'' stale_world) = Inr False \<and>
   fst (getServerUserWithOrganization (Some ''orgA'') down_world) =
     Inr (Some \<lparr>user = alice, organization = None, role = None\<rparr>) \<and>
   fst (getServerUserWithOrganization None demo_world) =
     Inr (Some \<lparr>user = alice, organization = None, role = None\<rparr>) \<and>
   fst (hasPermission ''products.create'' (Some ''orgA'') down_world) = Inr False \<and>
   fst (hasPermission ''products.create'' (Some ''orgA'') demo_world) = Inr True"
  by (simp add: eval_defs demo_defs)

subsection \<open>C3: no active membership\<close>

text \<open>
  Claim C3. For a resolved user and a target organization for which the store holds no
  membership row of the user with \<^verbatim>\<open>isActive = true\<close>, \<^verbatim>\<open>getServerUserWithOrganization\<close>
  returns null once the store has answered the membership query, and whatever it
  returns carries no organization and no role.
\<close>

theorem no_membership_NotFound:
  assumes "fst (getServerUser w) = Inr (Some u)" and "t \<noteq> []"
    and "\<forall>m\<in>set (organizationUsers (prisma w)).
           \<not> (ou_userId m = userId u \<and> ou_organizationId m = t \<and> ou_isActive m)"
  shows "(outage (prisma w) OrganizationUserModel = None \<longrightarrow>
            getServerUserWithOrganization (Some t) w = (Inr None, w)) \<and>
         (\<forall>c. fst (getServerUserWithOrganization (Some t) w) = Inr (Some c) \<longrightarrow>
            organization c = None \<and> role c = None)"
proof -
  from assms(3) have miss:
    "find (\<lambda>r. ou_userId r = userId u \<and> ou_organizationId r = t \<and> ou_isActive r)
       (organizationUsers (prisma w)) = None"
    by (simp add: find_None_iff)
  show ?thesis
    using assms(2) miss
    by (auto simp add: context_of_resolved [OF assms(1)]
        getServerUserWithOrganization_try_def io_defs
        split: option.splits sum.splits prod.splits)
qed

theorem no_membership_NotFound_witness:
  "fst (getServerUser stale_world) = Inr (Some alice) \<and>
   outage (prisma stale_world) OrganizationUserModel = None \<and>
   getServerUserWithOrganization (Some ''orgA'') stale_world = (Inr None, stale_world) \<and>
   getServerUserWithOrganization (Some ''orgB'') demo_world = (Inr None, demo_world)"
proof -
  have ne: "''orgA'' \<noteq> []" "''orgB'' \<noteq> []" by simp_all
  have none1: "\<forall>m\<in>set (organizationUsers (prisma stale_world)).
      \<not> (ou_userId m = userId alice \<and> ou_organizationId m = ''orgA'' \<and> ou_isActive m)"
    by (simp add: demo_defs)
  have none2: "\<forall>m\<in>set (organizationUsers (prisma demo_world)).
      \<not> (ou_userId m = userId alice \<and> ou_organizationId m = ''orgB'' \<and> ou_isActive m)"
    by (simp add: demo_defs)
  have up: "outage (prisma stale_world) OrganizationUserModel = None"
    "outage (prisma demo_world) OrganizationUserModel = None"
    by (simp_all add: demo_defs)
  from no_membership_NotFound [OF stale_resolved ne(1) none1]
    no_membership_NotFound [OF demo_resolved ne(2) none2] up stale_resolved
  show ?thesis by blast
qed

subsection \<open>C4: a token of a user who is gone or disabled\<close>

text \<open>
  Claim C4. For a token whose decoded claims carry a userId, if the store has no user of
  that id, or the user has \<^verbatim>\<open>isActive = false\<close>, or a status other than ACTIVE, then
  \<^verbatim>\<open>getServerUser\<close> returns null.
\<close>

theorem inactive_user_Unauthenticated:
  assumes "cookie_jar w = Inr jar"
    and "cookie_value jar ''auth-token'' = Some token"
    and "verifyToken w token = Inr (Some p)"
    and "payload_userId p = Some uid"
    and "(case find (\<lambda>r. user_id r = uid) (users (prisma w)) of
            None \<Rightarrow> True
          | Some row \<Rightarrow> \<not> user_isActive row \<or> user_status row \<noteq> ACTIVE)"
  shows "fst (getServerUser w) = Inr None"
  using assms
  by (auto simp add: getServerUser_fst getServerUser_try_def io_defs
      split: sum.splits option.splits)

theorem inactive_user_Unauthenticated_witness:
  "verifyToken suspended_world ''tok'' = Inr (Some demo_payload) \<and>
   payload_userId demo_payload = Some ''u1'' \<and>
   find (\<lambda>r. user_id r = ''u1'') (users (prisma suspended_world)) =
     Some (alice_row\<lparr>user_status := SUSPENDED\<rparr>) \<and>
   fst (getServerUser suspended_world) = Inr None"
proof -
  have h1: "cookie_jar suspended_world = Inr [(''auth-token'', ''tok'')]"
    and h2: "cookie_value [(''auth-token'', ''tok'')] ''auth-token'' = Some ''tok''"
    and h3: "verifyToken suspended_world ''tok'' = Inr (Some demo_payload)"
    and h4: "payload_userId demo_payload = Some ''u1''"
    and h5: "find (\<lambda>r. user_id r = ''u1'') (users (prisma suspended_world)) =
      Some (alice_row\<lparr>user_status := SUSPENDED\<rparr>)"
    by (simp_all add: demo_defs cookie_value_def)
  have h6: "(case find (\<lambda>r. user_id r = ''u1'') (users (prisma suspended_world)) of
            None \<Rightarrow> True
          | Some row \<Rightarrow> \<not> user_isActive row \<or> user_status row \<noteq> ACTIVE)"
    by (simp add: demo_defs)
  from inactive_user_Unauthenticated [OF h1 h2 h3 h4 h6] h3 h4 h5
  show ?thesis by simp
qed

subsection \<open>C5: the organization embedded in the token\<close>

text \<open>
  Claim C5 does not hold of the code. Alice's token embeds organization A, and her
  membership in A is switched off. Called with no organization,
  \<^verbatim>\<open>getServerUserWithOrganization\<close> returns her with organization and role null, the
  value for no context, where the claim wants null: the object that \<^verbatim>\<open>getServerUser\<close>
  builds never carries the organization of the token. Called with organization A it
  returns null.
\<close>

theorem embedded_organization_dropped:
  "verifyToken stale_world ''tok'' = Inr (Some demo_payload) \<and>
   payload_organizationId demo_payload = Some ''orgA'' \<and>
   fst (getServerUser stale_world) = Inr (Some alice) \<and>
   fst (getServerUserWithOrganization None stale_world) =
     Inr (Some \<lparr>user = alice, organization = None, role = None\<rparr>) \<and>
   fst (getServerUserWithOrganization (Some ''orgA'') stale_world) = Inr None"
  by (simp add: eval_defs demo_defs)

subsection \<open>C6: the failure of requirePermission\<close>

text \<open>
  Claim C6, as amended. A call of \<^verbatim>\<open>requirePermission(p, orgId)\<close> succeeds when
  \<^verbatim>\<open>hasPermission\<close> answers true, and otherwise throws the error
  \<^verbatim>\<open>Permission denied: p\<close>, whatever the cause: that error is thrown when no user is
  resolved, when no context is resolved, and when the context has no role (no
  organization named, no role assigned, a store query that failed), as it is when the
  role lacks the grant. The error is a plain \<^verbatim>\<open>Error\<close>; it differs from the error
  \<^verbatim>\<open>Authentication required\<close>, with which \<^verbatim>\<open>requireServerAuth\<close> refuses a caller
  with no session, in its message only.
\<close>

theorem requirePermission_failure_uniform:
  "(fst (requirePermission p orgIdArg w) = Inr () \<and>
      fst (hasPermission p orgIdArg w) = Inr True \<or>
    fst (requirePermission p orgIdArg w) = Inl (JsError (''Permission denied: '' @ p)) \<and>
      fst (hasPermission p orgIdArg w) = Inr False) \<and>
   (fst (getServerUser w) = Inr None \<longrightarrow>
      fst (requirePermission p orgIdArg w) = Inl (JsError (''Permission denied: '' @ p))) \<and>
   (fst (getServerUserWithOrganization orgIdArg w) = Inr None \<longrightarrow>
      fst (requirePermission p orgIdArg w) = Inl (JsError (''Permission denied: '' @ p))) \<and>
   (\<forall>c. fst (getServerUserWithOrganization orgIdArg w) = Inr (Some c) \<and> role c = None \<longrightarrow>
      fst (requirePermission p orgIdArg w) = Inl (JsError (''Permission denied: '' @ p))) \<and>
   fst (requirePermission p orgIdArg w) \<noteq> Inl (JsError ''Authentication required'') \<and>
   (fst (getServerUser w) = Inr None \<longrightarrow>
      fst (requireServerAuth w) = Inl (JsError ''Authentication required''))"
proof -
  obtain b w' where run: "hasPermission p orgIdArg w = (Inr b, w')"
    using hasPermission_total [of p orgIdArg w]
    by (cases "hasPermission p orgIdArg w") auto
  have outcome: "fst (requirePermission p orgIdArg w) = Inr () \<and>
      fst (hasPermission p orgIdArg w) = Inr True \<or>
    fst (requirePermission p orgIdArg w) = Inl (JsError (''Permission denied: '' @ p)) \<and>
      fst (hasPermission p orgIdArg w) = Inr False"
    using run
    by (cases b) (simp_all add: requirePermission_def io_bind_def io_throw_def io_return_def)
  have nosession: "fst (getServerUser w) = Inr None \<longrightarrow>
      fst (requirePermission p orgIdArg w) = Inl (JsError (''Permission denied: '' @ p))"
    by (simp add: requirePermission_unauthenticated)
  have nocontext: "fst (getServerUserWithOrganization orgIdArg w) = Inr None \<longrightarrow>
      fst (requirePermission p orgIdArg w) = Inl (JsError (''Permission denied: '' @ p))"
    by (cases "getServerUserWithOrganization orgIdArg w")
      (simp add: requirePermission_def hasPermission_def io_bind_def io_return_def io_throw_def)
  have norole: "\<forall>c. fst (getServerUserWithOrganization orgIdArg w) = Inr (Some c) \<and>
        role c = None \<longrightarrow>
      fst (requirePermission p orgIdArg w) = Inl (JsError (''Permission denied: '' @ p))"
    by (cases "getServerUserWithOrganization orgIdArg w")
      (simp add: requirePermission_def hasPermission_def io_bind_def io_return_def io_throw_def)
  have message: "fst (requirePermission p orgIdArg w) \<noteq> Inl (JsError ''Authentication required'')"
    using outcome by auto
  have auth: "fst (getServerUser w) = Inr None \<longrightarrow>
      fst (requireServerAuth w) = Inl (JsError ''Authentication required'')"
    by (cases "getServerUser w") (simp add: requireServerAuth_def io_bind_def io_throw_def)
  from outcome nosession nocontext norole message auth show ?thesis by blast
qed

theorem requirePermission_failure_uniform_witness:
  "fst (getServerUser anonymous_world) = Inr None \<and>
   fst (requirePermission ''inventory.create'' (Some ''orgA'') anonymous_world) =
     Inl (JsError ''Permission denied: inventory.create'') \<and>
   fst (requireServerAuth anonymous_world) = Inl (JsError ''Authentication required'') \<and>
   fst (getServerUserWithOrganization (Some ''orgA'') stale_world) = Inr None \<and>
   fst (requirePermission ''inventory.create'' (Some ''orgA'') stale_world) =
     Inl (JsError ''Permission denied: inventory.create'') \<and>
   fst (getServerUserWithOrganization None demo_world) =
     Inr (Some \<lparr>user = alice, organization = None, role = None\<rparr>) \<and>
   fst (requirePermission ''inventory.create'' None demo_world) =
     Inl (JsError ''Permission denied: inventory.create'') \<and>
   fst (requirePermission ''inventory.create'' (Some ''orgA'') demo_world) =
     Inl (JsError ''Permission denied: inventory.create'') \<and>
   fst (requirePermission ''products.create'' (Some ''orgA'') demo_world) = Inr ()"
proof -
  have notfound: "fst (getServerUserWithOrganization (Some ''orgA'') stale_world) = Inr None"
    and nocontext: "fst (getServerUserWithOrganization None demo_world) =
      Inr (Some \<lparr>user = alice, organization = None, role = None\<rparr>)"
    and no: "fst (hasPermission ''inventory.create'' (Some ''orgA'') demo_world) = Inr False"
    and yes: "fst (hasPermission ''products.create'' (Some ''orgA'') demo_world) = Inr True"
    by (simp_all add: eval_defs demo_defs)
  have norole: "role \<lparr>user = alice, organization = None, role = None\<rparr> = None" by simp
  from requirePermission_failure_uniform
      [of "''inventory.create''" "Some ''orgA''" anonymous_world] anonymous_unresolved
  have p1: "fst (requirePermission ''inventory.create'' (Some ''orgA'') anonymous_world) =
      Inl (JsError ''Permission denied: inventory.create'')"
    and p2: "fst (requireServerAuth anonymous_world) = Inl (JsError ''Authentication required'')"
    by simp_all
  from requirePermission_failure_uniform
      [of "''inventory.create''" "Some ''orgA''" stale_world] notfound
  have p3: "fst (requirePermission ''inventory.create'' (Some ''orgA'') stale_world) =
      Inl (JsError ''Permission denied: inventory.create'')"
    by simp
  from requirePermission_failure_uniform [of "''inventory.create''" None demo_world]
    nocontext norole
  have p4: "fst (requirePermission ''inventory.create'' None demo_world) =
      Inl (JsError ''Permission denied: inventory.create'')"
    by simp
  from requirePermission_failure_uniform [of "''inventory.create''" "Some ''orgA''" demo_world] no
  have p5: "fst (requirePermission ''inventory.create'' (Some ''orgA'') demo_world) =
      Inl (JsError ''Permission denied: inventory.create'')"
    by simp
  from requirePermission_failure_uniform [of "''products.create''" "Some ''orgA''" demo_world] yes
  have p6: "fst (requirePermission ''products.create'' (Some ''orgA'') demo_world) = Inr ()"
    by simp
  from anonymous_unresolved notfound nocontext p1 p2 p3 p4 p5 p6 show ?thesis by simp
qed

text \<open>
  The claim as it stands fails: the caller of \<^verbatim>\<open>requirePermission\<close> cannot tell the
  causes apart. A request with no session, a resolved user who names no organization,
  a membership that is switched off, a store that is unavailable and a role that lacks
  the grant all end in the same error.
\<close>

theorem requirePermission_distinct_counterexample:
  "fst (getServerUser anonymous_world) = Inr None \<and>
   fst (requirePermission ''inventory.create'' (Some ''orgA'') anonymous_world) =
     Inl (JsError ''Permission denied: inventory.create'') \<and>
   fst (getServerUserWithOrganization None demo_world) =
     Inr (Some \<lparr>user = alice, organization = None, role = None\<rparr>) \<and>
   fst (requirePermission ''inventory.create'' None demo_world) =
     Inl (JsError ''Permission denied: inventory.create'') \<and>
   fst (getServerUserWithOrganization (Some ''orgA'') stale_world) = Inr None \<and>
   fst (requirePermission ''inventory.create'' (Some ''orgA'') stale_world) =
     Inl (JsError ''Permission denied: inventory.create'') \<and>
   fst (requirePermission ''inventory.create'' (Some ''orgA'') down_world) =
     Inl (JsError ''Permission denied: inventory.create'') \<and>
   fst (hasPermission ''inventory.create'' (Some ''orgA'') demo_world) = Inr False \<and>
   fst (requirePermission ''inventory.create'' (Some ''orgA'') demo_world) =
     Inl (JsError ''Permission denied: inventory.create'')"
  by (simp add: eval_defs demo_defs)

subsection \<open>C7: no target organization\<close>

text \<open>
  Claim C7. For a resolved user, when the call names no organization (no argument, or
  an empty one), \<^verbatim>\<open>getServerUserWithOrganization\<close> returns the user with organization
  and role null, which is not the null returned when the membership lookup misses. The
  claims of the token do not matter: the resolved user never carries their
  organization.
\<close>

theorem no_target_NoContext:
  assumes "fst (getServerUser w) = Inr (Some u)" and "\<not> truthy orgIdArg"
  shows "getServerUserWithOrganization orgIdArg w =
           (Inr (Some \<lparr>user = u, organization = None, role = None\<rparr>), w) \<and>
         fst (getServerUserWithOrganization orgIdArg w) \<noteq> Inr None"
  using assms(2)
  by (simp add: context_of_resolved [OF assms(1)] truthy_def split: option.splits)

theorem no_target_NoContext_witness:
  "fst (getServerUser demo_world) = Inr (Some alice) \<and>
   getServerUserWithOrganization None demo_world =
     (Inr (Some \<lparr>user = alice, organization = None, role = None\<rparr>), demo_world) \<and>
   getServerUserWithOrganization (Some '''') demo_world =
     (Inr (Some \<lparr>user = alice, organization = None, role = None\<rparr>), demo_world)"
proof -
  have f: "\<not> truthy None" "\<not> truthy (Some '''')" by (simp_all add: truthy_def)
  from no_target_NoContext [OF demo_resolved f(1)] no_target_NoContext [OF demo_resolved f(2)]
    demo_resolved
  show ?thesis by simp
qed

subsection \<open>C8: a member with no role\<close>

text \<open>
  Claim C8. For a resolved user whose membership lookup in the target organization finds
  an active membership, and for whom the store holds no active role assignment there
  (the store answering both queries), \<^verbatim>\<open>getServerUserWithOrganization\<close> returns the
  organization of the membership with role null, and every permission check on that
  context answers false.
\<close>

theorem member_without_role:
  assumes "fst (getServerUser w) = Inr (Some u)" and "t \<noteq> []"
    and "outage (prisma w) OrganizationUserModel = None"
    and "outage (prisma w) OrganizationUserRoleModel = None"
    and "find (\<lambda>r. ou_userId r = userId u \<and> ou_organizationId r = t \<and> ou_isActive r)
           (organizationUsers (prisma w)) = Some m"
    and "\<forall>a\<in>set (organizationUserRoles (prisma w)).
           \<not> (our_organizationId a = t \<and> our_userId a = userId u \<and> our_isActive a)"
  shows "getServerUserWithOrganization (Some t) w =
           (Inr (Some \<lparr>user = u, organization = Some (ou_organization m), role = None\<rparr>), w) \<and>
         (\<forall>p. hasPermission p (Some t) w = (Inr False, w))"
proof -
  from assms(6) have norole:
    "find (\<lambda>r. our_organizationId r = t \<and> our_userId r = userId u \<and> our_isActive r)
       (organizationUserRoles (prisma w)) = None"
    by (simp add: find_None_iff)
  have "getServerUserWithOrganization (Some t) w =
           (Inr (Some \<lparr>user = u, organization = Some (ou_organization m), role = None\<rparr>), w)"
    using assms(2-5) norole
    by (simp add: context_of_resolved [OF assms(1)] getServerUserWithOrganization_try_def
        io_defs)
  then show ?thesis
    by (simp add: hasPermission_def io_bind_def io_return_def)
qed

theorem member_without_role_witness:
  "fst (getServerUser norole_world) = Inr (Some alice) \<and>
   getServerUserWithOrganization (Some ''orgA'') norole_world =
     (Inr (Some \<lparr>user = alice, organization = Some orgA, role = None\<rparr>), norole_world) \<and>
   hasPermission ''products.create'' (Some ''orgA'') norole_world = (Inr False, norole_world) \<and>
   hasPermission ''*'' (Some ''orgA'') norole_world = (Inr False, norole_world)"
proof -
  have ne: "''orgA'' \<noteq> []" by simp
  have up: "outage (prisma norole_world) OrganizationUserModel = None"
    "outage (prisma norole_world) OrganizationUserRoleModel = None"
    by (simp_all add: demo_defs)
  have member: "find (\<lambda>r. ou_userId r = userId alice \<and> ou_organizationId r = ''orgA'' \<and>
      ou_isActive r) (organizationUsers (prisma norole_world)) = Some alice_in_orgA"
    by (simp add: demo_defs)
  have norole: "\<forall>a\<in>set (organizationUserRoles (prisma norole_world)).
      \<not> (our_organizationId a = ''orgA'' \<and> our_userId a = userId alice \<and> our_isActive a)"
    by (simp add: demo_defs)
  have org: "ou_organization alice_in_orgA = orgA" by (simp add: alice_in_orgA_def)
  from member_without_role [OF norole_resolved ne up member norole] org norole_resolved
  show ?thesis by simp
qed

subsection \<open>C9: getServerUser reads only\<close>

text \<open>
  Claim C9. A call of \<^verbatim>\<open>getServerUser\<close> leaves the store, the cookies and the codec as
  they were (it may write a line to the console), and a second call returns what the
  first returned.
\<close>

theorem getServerUser_idempotent:
  "prisma (snd (getServerUser w)) = prisma w \<and>
   cookie_jar (snd (getServerUser w)) = cookie_jar w \<and>
   verifyToken (snd (getServerUser w)) = verifyToken w \<and>
   fst (getServerUser (snd (getServerUser w))) = fst (getServerUser w)"
proof (cases "fst (getServerUser_try w)")
  case (Inl e)
  then show ?thesis
    by (simp add: getServerUser_caught getServerUser_fst getServerUser_try_console)
next
  case (Inr r)
  then show ?thesis by (simp add: getServerUser_ok)
qed

theorem getServerUser_idempotent_witness:
  "fst (getServerUser (snd (getServerUser demo_world))) = Inr (Some alice) \<and>
   fst (getServerUser (snd (getServerUser user_down_world))) = Inr None \<and>
   prisma (snd (getServerUser user_down_world)) = prisma user_down_world"
proof -
  have "fst (getServerUser user_down_world) = Inr None"
    by (simp add: eval_defs demo_defs)
  with getServerUser_idempotent [of demo_world] getServerUser_idempotent [of user_down_world]
    demo_resolved
  show ?thesis by simp
qed

subsection \<open>C10: getServerUser never throws\<close>

text \<open>
  Claim C10. \<^verbatim>\<open>getServerUser\<close> always returns: a resolved user or null. Whatever the
  body of its \<^verbatim>\<open>try\<close> throws is written to the console and turned into null; so null
  is returned when \<^verbatim>\<open>cookies()\<close> throws, when the codec throws on the token, and while
  the store is unavailable, exactly as for a request with no cookie.
\<close>

theorem getServerUser_never_throws:
  "(\<exists>r. fst (getServerUser w) = Inr r) \<and>
   (\<forall>e. fst (getServerUser_try w) = Inl e \<longrightarrow>
      getServerUser w =
        (Inr None,
         w\<lparr>console := console w @ [(''Server user verification failed:'', e)]\<rparr>)) \<and>
   (\<forall>e. cookie_jar w = Inl e \<or> outage (prisma w) UserModel = Some e \<or>
        (\<exists>jar token. cookie_jar w = Inr jar \<and>
           cookie_value jar ''auth-token'' = Some token \<and> verifyToken w token = Inl e) \<longrightarrow>
      fst (getServerUser w) = Inr None) \<and>
   (\<forall>jar. cookie_jar w = Inr jar \<and> cookie_value jar ''auth-token'' = None \<longrightarrow>
      fst (getServerUser w) = Inr None)"
proof -
  have a: "\<exists>r. fst (getServerUser w) = Inr r" by (rule getServerUser_total)
  have b: "\<forall>e. fst (getServerUser_try w) = Inl e \<longrightarrow>
      getServerUser w =
        (Inr None,
         w\<lparr>console := console w @ [(''Server user verification failed:'', e)]\<rparr>)"
    by (simp add: getServerUser_caught)
  have c1: "\<forall>e. cookie_jar w = Inl e \<longrightarrow> fst (getServerUser w) = Inr None"
    by (simp add: getServerUser_fst getServerUser_try_def io_defs)
  have c2: "\<forall>e. outage (prisma w) UserModel = Some e \<longrightarrow> fst (getServerUser w) = Inr None"
    by (auto simp add: getServerUser_fst getServerUser_try_def io_defs
        split: sum.splits option.splits)
  have c3: "\<forall>e jar token. cookie_jar w = Inr jar \<and>
        cookie_value jar ''auth-token'' = Some token \<and> verifyToken w token = Inl e \<longrightarrow>
      fst (getServerUser w) = Inr None"
    by (auto simp add: getServerUser_fst getServerUser_try_def io_defs
        split: sum.splits option.splits)
  have d: "\<forall>jar. cookie_jar w = Inr jar \<and> cookie_value jar ''auth-token'' = None \<longrightarrow>
      fst (getServerUser w) = Inr None"
    by (auto simp add: getServerUser_fst getServerUser_try_def io_defs
        split: sum.splits option.splits)
  from a b c1 c2 c3 d show ?thesis by blast
qed

theorem getServerUser_never_throws_witness:
  "fst (getServerUser_try user_down_world) = Inl (JsError ''connection refused'') \<and>
   getServerUser user_down_world =
     (Inr None, user_down_world\<lparr>console :=
        [(''Server user verification failed:'', JsError ''connection refused'')]\<rparr>) \<and>
   fst (getServerUser anonymous_world) = Inr None"
proof -
  have h1: "fst (getServerUser_try user_down_world) = Inl (JsError ''connection refused'')"
    by (simp add: eval_defs demo_defs)
  have h2: "cookie_jar anonymous_world = Inr []" "cookie_value [] ''auth-token'' = None"
    by (simp_all add: demo_defs cookie_value_def)
  have c0: "console user_down_world = []" by (simp add: demo_defs)
  from getServerUser_never_throws [of user_down_world] h1 c0
  have p1: "getServerUser user_down_world =
     (Inr None, user_down_world\<lparr>console :=
        [(''Server user verification failed:'', JsError ''connection refused'')]\<rparr>)"
    by auto
  from getServerUser_never_throws [of anonymous_world] h2
  have p2: "fst (getServerUser anonymous_world) = Inr None"
    by blast
  from h1 p1 p2 show ?thesis by simp
qed

end
